theory Spec2Isabelle
  imports Main
begin

section \<open>Python objects, exceptions and bound calls\<close>

text \<open>
  The module \<^verbatim>\<open>managetkeventdata\<close> marshals calls from arbitrary threads to the thread
  that runs the Tk main loop. The embedding keeps the module's global objects
  (\<^verbatim>\<open>datastream\<close>, \<^verbatim>\<open>count\<close>, the thread-local \<^verbatim>\<open>return_cell\<close>, \<^verbatim>\<open>main_cell_set\<close>) in an
  explicit state record; every function of the module takes the state and returns the
  new one. An exception is a value: a call returns \<open>Inl\<close> of the exception it raises
  or \<open>Inr\<close> of the object it returns.

  Exceptions. \<open>UserException\<close> stands for an instance of a subclass of \<^verbatim>\<open>Exception\<close>
  raised by user code, \<open>BaseOnly\<close> for an instance of \<^verbatim>\<open>BaseException\<close> that does not
  derive from \<^verbatim>\<open>Exception\<close> (\<^verbatim>\<open>SystemExit\<close>, \<^verbatim>\<open>KeyboardInterrupt\<close>): the clause
  \<^verbatim>\<open>except Exception\<close> catches the first kind only. The parameter is the identity of the
  exception instance. \<open>TclError\<close> is the exception \<^verbatim>\<open>tkinter\<close> raises when Tcl refuses a
  command.
\<close>

datatype 'e exc =
    IndexError
  | AssertionError
  | AttributeError
  | ValueError
  | TypeError
  | TclError
  | UserException 'e
  | BaseOnly 'e

fun is_Exception :: "'e exc \<Rightarrow> bool" where
  "is_Exception (BaseOnly e) = False"
| "is_Exception x = True"

text \<open>A Python object as the module sees it: \<^verbatim>\<open>None\<close>, an exception instance, or any
  other object (opaque, of type \<open>'v\<close>).\<close>

datatype ('v, 'e) pyobj = PyNone | Obj 'v | ExcObj "'e exc"

text \<open>A zero-argument callable (\<^verbatim>\<open>partial(func, *args, **kwargs)\<close>): run in the world
  \<open>'w\<close> of the objects it works on, it raises or returns, and leaves a new world.\<close>

type_synonym ('v, 'e, 'w) func = "'w \<Rightarrow> ('e exc + ('v, 'e) pyobj) \<times> 'w"

type_synonym widget = string

datatype thread = MainThread | Worker nat

section \<open>Handlers, event data, return cells\<close>

datatype ('v, 'e, 'w) handler =
    ProcHandler
  | ProcExcHandler "'e exc \<Rightarrow> ('v, 'e, 'w) func"
  | FuncHandler

text \<open>What \<^verbatim>\<open>event_generate\<close> enqueues: an arbitrary object of external code (\<open>Data\<close>), the
  namedtuple \<^verbatim>\<open>EventData(handler, func)\<close> of \<^verbatim>\<open>ProcGenerator\<close>, or the namedtuple
  \<^verbatim>\<open>EventData(handler, cell, func)\<close> of \<^verbatim>\<open>FuncGenerator\<close>. A return cell is created once
  per thread and kept in that thread's local storage, so the reference to a cell is the
  thread that owns it.\<close>

datatype ('v, 'e, 'w) payload =
    Data "('v, 'e) pyobj"
  | ProcEventData "('v, 'e, 'w) handler" "('v, 'e, 'w) func"
  | FuncEventData "('v, 'e, 'w) handler" thread "('v, 'e, 'w) func"

datatype 'd SmallEvent = SmallEvent (data: 'd) (widget: widget)

record ('v, 'e) ReturnCell =
  cell_value :: "('v, 'e) pyobj"
  err_flag :: bool
  bell :: bool

definition ReturnCell_init :: "('v, 'e) ReturnCell" where
  "ReturnCell_init = \<lparr>cell_value = PyNone, err_flag = False, bell = False\<rparr>"

definition set_return ::
  "('v, 'e) ReturnCell \<Rightarrow> ('v, 'e) pyobj \<Rightarrow> ('v, 'e) pyobj \<times> ('v, 'e) ReturnCell" where
  "set_return c v = (cell_value c, c\<lparr>cell_value := v\<rparr>)"

text \<open>The attribute \<^verbatim>\<open>local.return_cell\<close> of one thread: not set yet, set to \<^verbatim>\<open>None\<close>
  (the main thread), or set to that thread's cell.\<close>

datatype ('v, 'e) slot = Unset | NoneCell | HasCell "('v, 'e) ReturnCell"

text \<open>A function registered with \<^verbatim>\<open>bind\<close>: the module's own \<^verbatim>\<open>handle_call\<close>, or a
  handler of external code.\<close>

datatype ('v, 'e, 'w) callback =
    HandleCall
  | UserCallback "('v, 'e, 'w) payload SmallEvent \<Rightarrow> ('v, 'e, 'w) func"

section \<open>The state\<close>

text \<open>
  \<open>datastream\<close> is the deque, head first; \<open>count\<close> is the next value of
  \<^verbatim>\<open>itertools.count()\<close>. The three fields \<open>tcl_events\<close>, \<open>bindings\<close> and \<open>bindtags\<close> are
  the part of Tk the module talks to: the events placed on Tcl's queue with
  \<^verbatim>\<open>when='tail'\<close> (target widget, sequence, and the \<^verbatim>\<open>%d\<close> field, which is
  \<^verbatim>\<open>str(index)\<close> and is read back with \<^verbatim>\<open>int\<close>, so it is kept as the integer), the binding
  table, and the binding tags of each widget.
\<close>

record ('v, 'e, 'w) state =
  datastream :: "(int \<times> ('v, 'e, 'w) payload) list"
  count :: int
  tcl_events :: "(widget \<times> string \<times> int) list"
  bindings :: "widget \<times> string \<Rightarrow> ('v, 'e, 'w) callback list"
  bindtags :: "widget \<Rightarrow> widget list"
  cells :: "thread \<Rightarrow> ('v, 'e) slot"
  main_cell_set :: bool
  world :: 'w

definition virtual_event :: string where
  "virtual_event = ''<<managetkeventdata-call>>''"

definition run_func ::
  "('v, 'e, 'w) func \<Rightarrow> ('v, 'e, 'w) state \<Rightarrow> ('e exc + ('v, 'e) pyobj) \<times> ('v, 'e, 'w) state" where
  "run_func f s = (case f (world s) of (r, w') \<Rightarrow> (r, s\<lparr>world := w'\<rparr>))"

section \<open>bind and event\_generate\<close>

text \<open>The loop of \<^verbatim>\<open>_substitute\<close>: pop from the head until an index \<open>n \<ge> index\<close> comes;
  \<^verbatim>\<open>popleft\<close> on an empty deque raises \<^verbatim>\<open>IndexError\<close>.\<close>

fun dequeue_loop ::
  "int \<Rightarrow> (int \<times> 'd) list \<Rightarrow> ('e exc + int \<times> 'd) \<times> (int \<times> 'd) list" where
  "dequeue_loop index [] = (Inl IndexError, [])"
| "dequeue_loop index ((n, d) # q) =
     (if n \<ge> index then (Inr (n, d), q) else dequeue_loop index q)"

definition substitute ::
  "widget \<Rightarrow> int \<Rightarrow> (int \<times> 'd) list \<Rightarrow> ('e exc + 'd SmallEvent) \<times> (int \<times> 'd) list" where
  "substitute w index q =
     (case dequeue_loop index q of
        (Inl e, q') \<Rightarrow> (Inl e, q')
      | (Inr (n, d), q') \<Rightarrow>
          if n = index then (Inr (SmallEvent d w), q') else (Inl AssertionError, q'))"

definition bind ::
  "widget \<Rightarrow> string \<Rightarrow> ('v, 'e, 'w) callback \<Rightarrow> bool \<Rightarrow> ('v, 'e, 'w) state \<Rightarrow> ('v, 'e, 'w) state" where
  "bind w sequence func add s =
     s\<lparr>bindings := (bindings s)
          ((w, sequence) := (if add then bindings s (w, sequence) else []) @ [func])\<rparr>"

text \<open>
  What Tk does with \<^verbatim>\<open>widget.event_generate(sequence, data=..., when='tail')\<close> is not code
  of the module. Tk takes the option \<^verbatim>\<open>-data\<close> for a virtual event only, written
  \<^verbatim>\<open><<name>>\<close> with a name that is not empty; for any other sequence the command fails and
  \<^verbatim>\<open>tkinter\<close> raises \<^verbatim>\<open>TclError\<close>. The widget is taken to exist (the life of widgets is
  outside the specification).
\<close>

definition tk_accepts :: "string \<Rightarrow> bool" where
  "tk_accepts sequence \<longleftrightarrow>
     (let n = length sequence in
      4 < n \<and> take 2 sequence = ''<<'' \<and> drop (n - 2) sequence = ''>>''
      \<and> CHR ''>'' \<notin> set (take (n - 4) (drop 2 sequence)))"

text \<open>\<^verbatim>\<open>event_generate\<close>: under the lock, the index is taken from the counter and the entry
  is enqueued; then Tk is asked to queue the event. When Tk refuses, the exception leaves
  \<^verbatim>\<open>event_generate\<close> with the index used and the entry in the queue, and no notification.\<close>

definition event_generate ::
  "widget \<Rightarrow> string \<Rightarrow> ('v, 'e, 'w) payload \<Rightarrow> ('v, 'e, 'w) state
     \<Rightarrow> ('e exc + ('v, 'e) pyobj) \<times> ('v, 'e, 'w) state" where
  "event_generate w sequence d s =
     (let index = count s;
          s1 = s\<lparr>count := count s + 1, datastream := datastream s @ [(index, d)]\<rparr>
      in if tk_accepts sequence
         then (Inr PyNone, s1\<lparr>tcl_events := tcl_events s @ [(w, sequence, index)]\<rparr>)
         else (Inl TclError, s1))"

section \<open>return\_cell\<close>

definition return_cell ::
  "thread \<Rightarrow> ('v, 'e, 'w) state \<Rightarrow> ('v, 'e) slot \<times> ('v, 'e, 'w) state" where
  "return_cell t s =
     (case cells s t of
        Unset \<Rightarrow>
          if main_cell_set s \<or> t \<noteq> MainThread
          then (HasCell ReturnCell_init, s\<lparr>cells := (cells s)(t := HasCell ReturnCell_init)\<rparr>)
          else (NoneCell, s\<lparr>cells := (cells s)(t := NoneCell), main_cell_set := True\<rparr>)
      | c \<Rightarrow> (c, s))"

definition init_module :: "thread \<Rightarrow> 'w \<Rightarrow> ('v, 'e, 'w) state" where
  "init_module t w =
     (let s = \<lparr>datastream = [], count = 0, tcl_events = [], bindings = (\<lambda>k. []),
               bindtags = (\<lambda>x. [x]), cells = (\<lambda>u. Unset), main_cell_set = False,
               world = w\<rparr>
      in if t = MainThread then snd (return_cell t s) else s)"

section \<open>Handlers\<close>

definition event_func :: "('v, 'e, 'w) payload \<Rightarrow> ('v, 'e, 'w) func option" where
  "event_func d =
     (case d of Data x \<Rightarrow> None | ProcEventData h f \<Rightarrow> Some f | FuncEventData h c f \<Rightarrow> Some f)"

definition ProcHandler_call ::
  "('v, 'e, 'w) payload SmallEvent \<Rightarrow> ('v, 'e, 'w) state
     \<Rightarrow> ('e exc + ('v, 'e) pyobj) \<times> ('v, 'e, 'w) state" where
  "ProcHandler_call event s =
     (case event_func (data event) of
        None \<Rightarrow> (Inl AttributeError, s)
      | Some f \<Rightarrow> (case run_func f s of (Inl e, s') \<Rightarrow> (Inl e, s') | (Inr v, s') \<Rightarrow> (Inr PyNone, s')))"

definition ProcExcHandler_call ::
  "('e exc \<Rightarrow> ('v, 'e, 'w) func) \<Rightarrow> ('v, 'e, 'w) payload SmallEvent \<Rightarrow> ('v, 'e, 'w) state
     \<Rightarrow> ('e exc + ('v, 'e) pyobj) \<times> ('v, 'e, 'w) state" where
  "ProcExcHandler_call exc_handler event s =
     (case event_func (data event) of
        None \<Rightarrow> (Inl AttributeError, s)
      | Some f \<Rightarrow>
          (case run_func f s of
             (Inr v, s') \<Rightarrow> (Inr PyNone, s')
           | (Inl e, s') \<Rightarrow>
               if is_Exception e
               then (case run_func (exc_handler e) s' of
                       (Inl e', s'') \<Rightarrow> (Inl e', s'')
                     | (Inr v, s'') \<Rightarrow> (Inr PyNone, s''))
               else (Inl e, s')))"

text \<open>The three writes of \<^verbatim>\<open>FuncHandler.__call__\<close> to the cell, as the sequence of
  operations the source performs (lines 222 to 224), and their effect on a cell.\<close>

datatype ('v, 'e) cell_op = SetErrFlag bool | SetReturn "('v, 'e) pyobj" | BellSet | BellClear

fun apply_cell_op :: "('v, 'e) cell_op \<Rightarrow> ('v, 'e) ReturnCell \<Rightarrow> ('v, 'e) ReturnCell" where
  "apply_cell_op (SetErrFlag b) c = c\<lparr>err_flag := b\<rparr>"
| "apply_cell_op (SetReturn v) c = snd (set_return c v)"
| "apply_cell_op BellSet c = c\<lparr>bell := True\<rparr>"
| "apply_cell_op BellClear c = c\<lparr>bell := False\<rparr>"

definition FuncHandler_ops :: "'e exc + ('v, 'e) pyobj \<Rightarrow> ('v, 'e) cell_op list" where
  "FuncHandler_ops r =
     (case r of
        Inl e \<Rightarrow> [SetErrFlag True, SetReturn (ExcObj e), BellSet]
      | Inr result \<Rightarrow> [SetErrFlag False, SetReturn result, BellSet])"

definition FuncHandler_call ::
  "('v, 'e, 'w) payload SmallEvent \<Rightarrow> ('v, 'e, 'w) state
     \<Rightarrow> ('e exc + ('v, 'e) pyobj) \<times> ('v, 'e, 'w) state" where
  "FuncHandler_call event s =
     (case data event of
        Data x \<Rightarrow> (Inl TypeError, s)
      | ProcEventData h f \<Rightarrow> (Inl ValueError, s)
      | FuncEventData h t f \<Rightarrow>
          (case run_func f s of
             (r, s') \<Rightarrow>
               if (case r of Inl e \<Rightarrow> \<not> is_Exception e | Inr v \<Rightarrow> False)
               then (r, s')
               else (case cells s' t of
                       HasCell c \<Rightarrow>
                         (Inr PyNone,
                          s'\<lparr>cells := (cells s')(t := HasCell (fold apply_cell_op (FuncHandler_ops r) c))\<rparr>)
                     | x \<Rightarrow> (Inl AttributeError, s'))))"

definition handler_call ::
  "('v, 'e, 'w) handler \<Rightarrow> ('v, 'e, 'w) payload SmallEvent \<Rightarrow> ('v, 'e, 'w) state
     \<Rightarrow> ('e exc + ('v, 'e) pyobj) \<times> ('v, 'e, 'w) state" where
  "handler_call h event s =
     (case h of
        ProcHandler \<Rightarrow> ProcHandler_call event s
      | ProcExcHandler exc_handler \<Rightarrow> ProcExcHandler_call exc_handler event s
      | FuncHandler \<Rightarrow> FuncHandler_call event s)"

definition handle_call ::
  "('v, 'e, 'w) payload SmallEvent \<Rightarrow> ('v, 'e, 'w) state
     \<Rightarrow> ('e exc + ('v, 'e) pyobj) \<times> ('v, 'e, 'w) state" where
  "handle_call event s =
     (case data event of
        Data x \<Rightarrow> (Inl AttributeError, s)
      | ProcEventData h f \<Rightarrow> handler_call h event s
      | FuncEventData h t f \<Rightarrow> handler_call h event s)"

section \<open>Generators\<close>

text \<open>A call of a generator in a thread either comes back (\<open>Done\<close>, with what it raises
  or returns) or is suspended in \<^verbatim>\<open>cell.bell.wait()\<close> (\<open>Waiting\<close>) until the bell of the
  thread's cell is set; \<open>FuncGenerator_resume\<close> is the rest of \<^verbatim>\<open>FuncGenerator.__call__\<close>
  after the wait, and is \<open>None\<close> as long as the bell is not set.\<close>

datatype ('v, 'e, 'w) progress =
    Done "'e exc + ('v, 'e) pyobj" "('v, 'e, 'w) state"
  | Waiting "('v, 'e, 'w) state"

datatype ('v, 'e, 'w) generator =
    ProcGenerator "('v, 'e, 'w) handler"
  | FuncGenerator "('v, 'e, 'w) handler"

definition ProcGenerator_call ::
  "('v, 'e, 'w) handler \<Rightarrow> widget \<Rightarrow> ('v, 'e, 'w) func \<Rightarrow> ('v, 'e, 'w) state
     \<Rightarrow> ('v, 'e, 'w) progress" where
  "ProcGenerator_call h w func s =
     (case event_generate w virtual_event (ProcEventData h func) s of
        (Inl e, s') \<Rightarrow> Done (Inl e) s'
      | (Inr x, s') \<Rightarrow> Done (Inr PyNone) s')"

definition FuncGenerator_call ::
  "('v, 'e, 'w) handler \<Rightarrow> thread \<Rightarrow> widget \<Rightarrow> ('v, 'e, 'w) func \<Rightarrow> ('v, 'e, 'w) state
     \<Rightarrow> ('v, 'e, 'w) progress" where
  "FuncGenerator_call h t w func s =
     (case return_cell t s of
        (HasCell c, s1) \<Rightarrow>
          (case event_generate w virtual_event (FuncEventData h t func)
                  (s1\<lparr>cells := (cells s1)(t := HasCell (apply_cell_op BellClear c))\<rparr>) of
             (Inl e, s2) \<Rightarrow> Done (Inl e) s2
           | (Inr y, s2) \<Rightarrow> Waiting s2)
      | (x, s1) \<Rightarrow> (case run_func func s1 of (r, s2) \<Rightarrow> Done r s2))"

definition FuncGenerator_resume ::
  "thread \<Rightarrow> ('v, 'e, 'w) state \<Rightarrow> (('e exc + ('v, 'e) pyobj) \<times> ('v, 'e, 'w) state) option" where
  "FuncGenerator_resume t s =
     (case cells s t of
        HasCell c \<Rightarrow>
          if bell c
          then (case set_return c PyNone of
                  (result, c') \<Rightarrow>
                    let s' = s\<lparr>cells := (cells s)(t := HasCell c')\<rparr> in
                    if err_flag c'
                    then (case result of
                            ExcObj e \<Rightarrow> Some (Inl e, s')
                          | x \<Rightarrow> Some (Inl TypeError, s'))
                    else Some (Inr result, s'))
          else None
      | x \<Rightarrow> None)"

definition generator_call ::
  "('v, 'e, 'w) generator \<Rightarrow> thread \<Rightarrow> widget \<Rightarrow> ('v, 'e, 'w) func \<Rightarrow> ('v, 'e, 'w) state
     \<Rightarrow> ('v, 'e, 'w) progress" where
  "generator_call g t w func s =
     (case g of
        ProcGenerator h \<Rightarrow> ProcGenerator_call h w func s
      | FuncGenerator h \<Rightarrow> FuncGenerator_call h t w func s)"

section \<open>Proxies\<close>

text \<open>The wrapped object is the table of its attributes at the moment it is looked at;
  a method takes the arguments of the call and gives the bound call
  \<^verbatim>\<open>partial(func, *args, **kwargs)\<close>. \<open>make_proxy g w obj\<close> is the inner function
  \<^verbatim>\<open>_getattr\<close> that \<^verbatim>\<open>make_proxy(g, w, obj)\<close> gives to the \<^verbatim>\<open>Proxy\<close> it returns, so that
  \<open>make_proxy g w obj name\<close> is what \<^verbatim>\<open>Proxy.__getattr__(name)\<close> returns or raises when Python
  calls it; \<open>method_fn\<close> is the inner function \<^verbatim>\<open>method\<close>.\<close>

definition method_fn ::
  "('v, 'e, 'w) generator \<Rightarrow> widget \<Rightarrow> ('a \<Rightarrow> ('v, 'e, 'w) func) \<Rightarrow> 'a \<Rightarrow> thread
     \<Rightarrow> ('v, 'e, 'w) state \<Rightarrow> ('v, 'e, 'w) progress" where
  "method_fn g w func args t s = generator_call g t w (func args) s"

definition make_proxy ::
  "('v, 'e, 'w) generator \<Rightarrow> widget \<Rightarrow> (string \<rightharpoonup> ('a \<Rightarrow> ('v, 'e, 'w) func)) \<Rightarrow> string
     \<Rightarrow> 'e exc + ('a \<Rightarrow> thread \<Rightarrow> ('v, 'e, 'w) state \<Rightarrow> ('v, 'e, 'w) progress)" where
  "make_proxy g w obj name =
     (case obj name of
        None \<Rightarrow> Inl AttributeError
      | Some func \<Rightarrow> Inr (method_fn g w func))"

definition ProxyBuilder_init :: "widget \<Rightarrow> ('v, 'e, 'w) state \<Rightarrow> ('v, 'e, 'w) state" where
  "ProxyBuilder_init w s = bind w virtual_event HandleCall False s"

definition mute_proxy ::
  "widget \<Rightarrow> (string \<rightharpoonup> ('a \<Rightarrow> ('v, 'e, 'w) func)) \<Rightarrow> ('e exc \<Rightarrow> ('v, 'e, 'w) func) option
     \<Rightarrow> string \<Rightarrow> 'e exc + ('a \<Rightarrow> thread \<Rightarrow> ('v, 'e, 'w) state \<Rightarrow> ('v, 'e, 'w) progress)" where
  "mute_proxy w obj exc_handler =
     make_proxy
       (ProcGenerator (case exc_handler of None \<Rightarrow> ProcHandler | Some h \<Rightarrow> ProcExcHandler h))
       w obj"

definition proxy ::
  "widget \<Rightarrow> (string \<rightharpoonup> ('a \<Rightarrow> ('v, 'e, 'w) func)) \<Rightarrow> string
     \<Rightarrow> 'e exc + ('a \<Rightarrow> thread \<Rightarrow> ('v, 'e, 'w) state \<Rightarrow> ('v, 'e, 'w) progress)" where
  "proxy w obj = make_proxy (FuncGenerator FuncHandler) w obj"

text \<open>
  The expression \<^verbatim>\<open>proxy.name\<close>. Python calls \<^verbatim>\<open>__getattr__\<close> only for a name its normal lookup
  does not find on the object. The \<^verbatim>\<open>Proxy\<close> object has the attribute \<^verbatim>\<open>_getattr\<close> that
  \<^verbatim>\<open>__init__\<close> sets, and its class has \<^verbatim>\<open>__init__\<close> and \<^verbatim>\<open>__getattr__\<close>; the other names
  normal lookup finds (those every class and \<^verbatim>\<open>object\<close> provide, such as \<^verbatim>\<open>__class__\<close> and
  \<^verbatim>\<open>__dict__\<close>) depend on the interpreter and are the parameter \<open>builtin\<close>. For such a name
  the access gives the Proxy's own attribute, and \<^verbatim>\<open>__getattr__\<close> is not called.
\<close>

definition Proxy_own :: "(string \<Rightarrow> bool) \<Rightarrow> string \<Rightarrow> bool" where
  "Proxy_own builtin name \<longleftrightarrow>
     name = ''_getattr'' \<or> name = ''__init__'' \<or> name = ''__getattr__'' \<or> builtin name"

datatype 'f attribute = Own string | Forwarder 'f

definition Proxy_attribute ::
  "(string \<Rightarrow> bool) \<Rightarrow> (string \<Rightarrow> 'e exc + 'f) \<Rightarrow> string \<Rightarrow> 'e exc + 'f attribute" where
  "Proxy_attribute builtin getattr name =
     (if Proxy_own builtin name then Inr (Own name)
      else (case getattr name of Inl e \<Rightarrow> Inl e | Inr f \<Rightarrow> Inr (Forwarder f)))"

section \<open>The owner thread: Tk delivers an event\<close>

text \<open>
  \<open>call_binding\<close> is what Tcl runs for a binding made by \<^verbatim>\<open>bind(w, sequence, func)\<close>: the
  command registered with \<^verbatim>\<open>widget._register(func, _substitute)\<close> applies \<^verbatim>\<open>_substitute\<close> to
  the \<^verbatim>\<open>%d\<close> field and calls \<^verbatim>\<open>func\<close> on the result. \<open>tk_deliver\<close> takes the event at the head
  of Tcl's queue and runs, in order, the bindings of its sequence on the binding tags of
  its widget; what each binding raised or returned is collected (Tk reports an exception
  of a callback and goes on).
\<close>

definition callback_call ::
  "('v, 'e, 'w) callback \<Rightarrow> ('v, 'e, 'w) payload SmallEvent \<Rightarrow> ('v, 'e, 'w) state
     \<Rightarrow> ('e exc + ('v, 'e) pyobj) \<times> ('v, 'e, 'w) state" where
  "callback_call func event s =
     (case func of
        HandleCall \<Rightarrow> handle_call event s
      | UserCallback f \<Rightarrow> run_func (f event) s)"

definition call_binding ::
  "widget \<Rightarrow> ('v, 'e, 'w) callback \<Rightarrow> int \<Rightarrow> ('v, 'e, 'w) state
     \<Rightarrow> ('e exc + ('v, 'e) pyobj) \<times> ('v, 'e, 'w) state" where
  "call_binding w func index s =
     (case substitute w index (datastream s) of
        (Inl e, q) \<Rightarrow> (Inl e, s\<lparr>datastream := q\<rparr>)
      | (Inr event, q) \<Rightarrow> callback_call func event (s\<lparr>datastream := q\<rparr>))"

definition triggered ::
  "('v, 'e, 'w) state \<Rightarrow> widget \<Rightarrow> string \<Rightarrow> (widget \<times> ('v, 'e, 'w) callback) list" where
  "triggered s w sequence =
     concat (map (\<lambda>tag. map (\<lambda>func. (tag, func)) (bindings s (tag, sequence))) (bindtags s w))"

fun run_bindings ::
  "(widget \<times> ('v, 'e, 'w) callback) list \<Rightarrow> int \<Rightarrow> ('v, 'e, 'w) state
     \<Rightarrow> ('e exc + ('v, 'e) pyobj) list \<times> ('v, 'e, 'w) state" where
  "run_bindings [] index s = ([], s)"
| "run_bindings ((w, func) # bs) index s =
     (case call_binding w func index s of
        (r, s') \<Rightarrow> (case run_bindings bs index s' of (rs, s'') \<Rightarrow> (r # rs, s'')))"

definition tk_deliver ::
  "('v, 'e, 'w) state \<Rightarrow> (('e exc + ('v, 'e) pyobj) list \<times> ('v, 'e, 'w) state) option" where
  "tk_deliver s =
     (case tcl_events s of
        [] \<Rightarrow> None
      | (w, sequence, index) # rest \<Rightarrow>
          Some (run_bindings (triggered s w sequence) index (s\<lparr>tcl_events := rest\<rparr>)))"

section \<open>Scenarios\<close>

text \<open>A sequence of calls of \<^verbatim>\<open>event_generate\<close>, each one a whole critical section of
  \<^verbatim>\<open>generation_lock\<close>, in the order the lock was taken; a call that raises does so in
  its own caller, and the calls after it go on from the state it leaves.\<close>

fun event_generate_all ::
  "(widget \<times> string \<times> ('v, 'e, 'w) payload) list \<Rightarrow> ('v, 'e, 'w) state \<Rightarrow> ('v, 'e, 'w) state" where
  "event_generate_all [] s = s"
| "event_generate_all ((w, sequence, d) # ops) s =
     event_generate_all ops (snd (event_generate w sequence d s))"

text \<open>The cells a thread could see while a list of writes is carried out: the cell
  before the first write and after each write.\<close>

fun cell_trace :: "('v, 'e) cell_op list \<Rightarrow> ('v, 'e) ReturnCell \<Rightarrow> ('v, 'e) ReturnCell list" where
  "cell_trace [] c = [c]"
| "cell_trace (x # ops) c = c # cell_trace ops (apply_cell_op x c)"

text \<open>A call of a forwarding callable or of a generator in thread \<open>t\<close>, followed to its
  end: when the call is suspended, the owner thread handles the event at the head of
  Tcl's queue, and the thread resumes. The result is \<open>None\<close> when there is no event to
  handle or the bell of the thread's cell stays clear (the thread stays suspended).\<close>

definition marshalled_call ::
  "(thread \<Rightarrow> ('v, 'e, 'w) state \<Rightarrow> ('v, 'e, 'w) progress) \<Rightarrow> thread
     \<Rightarrow> ('v, 'e, 'w) state \<Rightarrow> (('e exc + ('v, 'e) pyobj) \<times> ('v, 'e, 'w) state) option" where
  "marshalled_call call t s =
     (case call t s of
        Done r s' \<Rightarrow> Some (r, s')
      | Waiting s1 \<Rightarrow>
          (case tk_deliver s1 of
             None \<Rightarrow> None
           | Some (rs, s2) \<Rightarrow> FuncGenerator_resume t s2))"

text \<open>A handler of external code that adds to the world, a list, its name and the
  number the event carries.\<close>

definition recording :: "string \<Rightarrow> (int, 'e, (string \<times> int) list) callback" where
  "recording name =
     UserCallback (\<lambda>event w.
       (Inr PyNone, w @ [(name, case data event of Data (Obj n) \<Rightarrow> n | d \<Rightarrow> 0)]))"

text \<open>The cell held by a slot, if any; and what the module keeps true of the main
  thread's slot: it is \<^verbatim>\<open>None\<close>, or it is not set and \<^verbatim>\<open>main_cell_set\<close> is still false
  (the module was initialised in another thread and the main thread has not asked yet).\<close>

definition cell_of :: "('v, 'e) slot \<Rightarrow> ('v, 'e) ReturnCell option" where
  "cell_of x = (case x of HasCell c \<Rightarrow> Some c | y \<Rightarrow> None)"

definition main_ok :: "('v, 'e, 'w) state \<Rightarrow> bool" where
  "main_ok s \<longleftrightarrow>
     cells s MainThread = NoneCell \<or> (cells s MainThread = Unset \<and> \<not> main_cell_set s)"

section \<open>The dequeue of the owner thread\<close>

lemma dequeue_loop_skip:
  "\<forall>e \<in> set pre. fst e < i \<Longrightarrow> dequeue_loop i (pre @ q) = dequeue_loop i q"
  by (induction pre) auto

lemma substitute_skip:
  "\<forall>e \<in> set pre. fst e < i \<Longrightarrow> substitute w i (pre @ q) = substitute w i q"
  by (simp add: substitute_def dequeue_loop_skip)

lemma substitute_Nil: "substitute w i [] = (Inl IndexError, [])"
  by (simp add: substitute_def)

lemma substitute_Cons:
  "substitute w i ((n, d) # q) =
     (if n < i then substitute w i q
      else if n = i then (Inr (SmallEvent d w), q)
      else (Inl AssertionError, q))"
  by (simp add: substitute_def)

text \<open>
  Claim C2. Whatever the queue and the expected index \<open>i\<close>: the entries popped from the
  head with an index below \<open>i\<close> are discarded and the loop goes on with the rest; the first
  entry with an index that is not below \<open>i\<close> ends the loop, and it is returned (as the
  event carrying its payload) when its index is \<open>i\<close>, while an index above \<open>i\<close> fails the
  assertion; the entry is removed from the queue in both cases. (A queue that runs empty
  first raises \<^verbatim>\<open>IndexError\<close> from \<^verbatim>\<open>popleft\<close>.)
\<close>

theorem substitute_dequeue:
  assumes "\<forall>e \<in> set pre. fst e < i"
  shows "substitute w i (pre @ (n, d) # rest) =
           (if n < i then substitute w i rest
            else if n = i then (Inr (SmallEvent d w), rest)
            else (Inl AssertionError :: 'e exc + 'd SmallEvent, rest))
         \<and> substitute w i pre = (Inl IndexError :: 'e exc + 'd SmallEvent, [])"
proof
  show "substitute w i (pre @ (n, d) # rest) =
           (if n < i then substitute w i rest
            else if n = i then (Inr (SmallEvent d w), rest)
            else (Inl AssertionError :: 'e exc + 'd SmallEvent, rest))"
    using assms by (simp only: substitute_skip substitute_Cons)
  have "substitute w i (pre @ []) = substitute w i []"
    using assms by (rule substitute_skip)
  then show "substitute w i pre = (Inl IndexError :: 'e exc + 'd SmallEvent, [])"
    by (simp add: substitute_Nil)
qed

theorem substitute_dequeue_witness:
  "substitute ''.'' 2 ([(0, ''a''), (1, ''b'')] @ (2, ''c'') # [(3, ''d'')])
       = (Inr (SmallEvent ''c'' ''.'') :: unit exc + string SmallEvent, [(3, ''d'')])
   \<and> substitute ''.'' 2 ([(0, ''a''), (1, ''b'')] @ (4, ''c'') # [(5, ''d'')])
       = (Inl AssertionError :: unit exc + string SmallEvent, [(5, ''d'')])
   \<and> substitute ''.'' 2 [(0, ''a''), (1, ''b'')]
       = (Inl IndexError :: unit exc + string SmallEvent, [])"
proof -
  have pre: "\<forall>e \<in> set [(0, ''a''), (1, ''b'')]. fst e < (2::int)"
    by simp
  have "substitute ''.'' 2 ([(0, ''a''), (1, ''b'')] @ (2, ''c'') # [(3, ''d'')])
          = (Inr (SmallEvent ''c'' ''.'') :: unit exc + string SmallEvent, [(3, ''d'')])"
    using substitute_dequeue [where 'e = unit, OF pre, of "''.''" 2 "''c''" "[(3, ''d'')]"] by simp
  moreover have "substitute ''.'' 2 ([(0, ''a''), (1, ''b'')] @ (4, ''c'') # [(5, ''d'')])
          = (Inl AssertionError :: unit exc + string SmallEvent, [(5, ''d'')])
        \<and> substitute ''.'' 2 [(0, ''a''), (1, ''b'')]
          = (Inl IndexError :: unit exc + string SmallEvent, [])"
    using substitute_dequeue [where 'e = unit, OF pre, of "''.''" 4 "''c''" "[(5, ''d'')]"] by simp
  ultimately show ?thesis by blast
qed

section \<open>Indices and notifications\<close>

lemma tk_accepts_virtual_event: "tk_accepts virtual_event"
  by (simp add: tk_accepts_def virtual_event_def)

lemma event_generate_fields:
  "fst (event_generate w sq d s) = (if tk_accepts sq then Inr PyNone else Inl TclError)"
  "datastream (snd (event_generate w sq d s)) = datastream s @ [(count s, d)]"
  "tcl_events (snd (event_generate w sq d s)) =
     tcl_events s @ (if tk_accepts sq then [(w, sq, count s)] else [])"
  "count (snd (event_generate w sq d s)) = count s + 1"
  "bindings (snd (event_generate w sq d s)) = bindings s"
  "bindtags (snd (event_generate w sq d s)) = bindtags s"
  "cells (snd (event_generate w sq d s)) = cells s"
  "main_cell_set (snd (event_generate w sq d s)) = main_cell_set s"
  "world (snd (event_generate w sq d s)) = world s"
  by (simp_all add: event_generate_def Let_def)

lemma event_generate_virtual:
  "event_generate w virtual_event d s =
     (Inr PyNone,
      s\<lparr>count := count s + 1, datastream := datastream s @ [(count s, d)],
        tcl_events := tcl_events s @ [(w, virtual_event, count s)]\<rparr>)"
  by (simp add: event_generate_def Let_def tk_accepts_virtual_event)

lemma event_generate_all_snoc:
  "event_generate_all (ops @ [(w, sq, d)]) s = snd (event_generate w sq d (event_generate_all ops s))"
  by (induction ops arbitrary: s) auto

lemma event_generate_all_state:
  "count (event_generate_all ops s) = count s + int (length ops)
   \<and> datastream (event_generate_all ops s) =
       datastream s @ map (\<lambda>k. (count s + int k, snd (snd (ops ! k)))) [0..<length ops]
   \<and> tcl_events (event_generate_all ops s) =
       tcl_events s @ map (\<lambda>k. (fst (ops ! k), fst (snd (ops ! k)), count s + int k))
                        (filter (\<lambda>k. tk_accepts (fst (snd (ops ! k)))) [0..<length ops])
   \<and> bindings (event_generate_all ops s) = bindings s
   \<and> bindtags (event_generate_all ops s) = bindtags s
   \<and> cells (event_generate_all ops s) = cells s
   \<and> main_cell_set (event_generate_all ops s) = main_cell_set s
   \<and> world (event_generate_all ops s) = world s"
proof (induction ops rule: rev_induct)
  case Nil
  show ?case by simp
next
  case (snoc x ops)
  obtain w sq d where x: "x = (w, sq, d)" by (cases x) auto
  have m1: "map (\<lambda>k. (count s + int k, snd (snd ((ops @ [(w, sq, d)]) ! k)))) [0..<length ops]
            = map (\<lambda>k. (count s + int k, snd (snd (ops ! k)))) [0..<length ops]"
    by (simp add: nth_append)
  have f1: "filter (\<lambda>k. tk_accepts (fst (snd ((ops @ [(w, sq, d)]) ! k)))) [0..<length ops]
            = filter (\<lambda>k. tk_accepts (fst (snd (ops ! k)))) [0..<length ops]"
    by (rule filter_cong) (simp_all add: nth_append)
  have m2: "map (\<lambda>k. (fst ((ops @ [(w, sq, d)]) ! k), fst (snd ((ops @ [(w, sq, d)]) ! k)), count s + int k))
                (filter (\<lambda>k. tk_accepts (fst (snd (ops ! k)))) [0..<length ops])
            = map (\<lambda>k. (fst (ops ! k), fst (snd (ops ! k)), count s + int k))
                (filter (\<lambda>k. tk_accepts (fst (snd (ops ! k)))) [0..<length ops])"
    by (rule map_cong) (simp_all add: nth_append)
  show ?case using snoc
    by (simp add: x event_generate_all_snoc event_generate_fields m1 f1 m2)
qed

lemmas event_generate_all_count = event_generate_all_state [THEN conjunct1]

lemmas event_generate_all_datastream =
  event_generate_all_state [THEN conjunct2, THEN conjunct1]

lemmas event_generate_all_tcl_events =
  event_generate_all_state [THEN conjunct2, THEN conjunct2, THEN conjunct1]

text \<open>
  Claim C7, as the code has it. Take any state and any sequence of calls of
  \<^verbatim>\<open>event_generate\<close>, each one a critical section of the generation lock. Every call
  appends its entry: the \<open>N\<close>th entry appended holds the data of the \<open>N\<close>th call and the
  counter's value before the sequence plus \<open>N\<close>, so the indices are strictly increasing in
  generation order, hence pairwise different, and above every index issued before. A call
  issues its notification after the entry is in the queue, and only when Tk accepts the
  event: the notifications issued carry, in order, the indices of the entries of the calls
  Tk accepted. When Tk accepts every call of the sequence there are as many notifications
  as entries, and the \<open>N\<close>th notification carries the index of the \<open>N\<close>th entry.
\<close>

theorem event_generate_indices:
  assumes "N < length ops"
  shows "let s' = event_generate_all ops s;
             new = drop (length (datastream s)) (datastream s');
             notes = drop (length (tcl_events s)) (tcl_events s');
             accepted = filter (\<lambda>k. tk_accepts (fst (snd (ops ! k)))) [0..<length ops]
         in length new = length ops
            \<and> fst (new ! N) = count s + int N
            \<and> snd (new ! N) = snd (snd (ops ! N))
            \<and> (\<forall>M < N. fst (new ! M) < fst (new ! N))
            \<and> ((\<forall>e \<in> set (datastream s). fst e < count s)
                 \<longrightarrow> (\<forall>e \<in> set (datastream s). fst e < fst (new ! N)))
            \<and> map (\<lambda>e. snd (snd e)) notes = map (\<lambda>k. fst (new ! k)) accepted
            \<and> ((\<forall>k < length ops. tk_accepts (fst (snd (ops ! k))))
                 \<longrightarrow> length notes = length ops \<and> snd (snd (notes ! N)) = fst (new ! N))"
proof -
  let ?acc = "filter (\<lambda>k. tk_accepts (fst (snd (ops ! k)))) [0..<length ops]"
  let ?new = "map (\<lambda>k. (count s + int k, snd (snd (ops ! k)))) [0..<length ops]"
  let ?notes = "map (\<lambda>k. (fst (ops ! k), fst (snd (ops ! k)), count s + int k)) ?acc"
  have nw: "drop (length (datastream s)) (datastream (event_generate_all ops s)) = ?new"
    by (simp add: event_generate_all_datastream)
  have nt: "drop (length (tcl_events s)) (tcl_events (event_generate_all ops s)) = ?notes"
    by (simp add: event_generate_all_tcl_events)
  have a: "length ?new = length ops" by simp
  have b: "fst (?new ! N) = count s + int N" using assms by simp
  have c: "snd (?new ! N) = snd (snd (ops ! N))" using assms by simp
  have d: "\<forall>M < N. fst (?new ! M) < fst (?new ! N)" using assms by simp
  have e: "(\<forall>e \<in> set (datastream s). fst e < count s)
             \<longrightarrow> (\<forall>e \<in> set (datastream s). fst e < fst (?new ! N))"
    using assms by fastforce
  have f: "map (\<lambda>e. snd (snd e)) ?notes = map (\<lambda>k. fst (?new ! k)) ?acc"
    by (simp add: comp_def)
  have g: "(\<forall>k < length ops. tk_accepts (fst (snd (ops ! k))))
             \<longrightarrow> length ?notes = length ops \<and> snd (snd (?notes ! N)) = fst (?new ! N)"
  proof
    assume all: "\<forall>k < length ops. tk_accepts (fst (snd (ops ! k)))"
    then have "?acc = [0..<length ops]" by (simp add: filter_id_conv)
    then show "length ?notes = length ops \<and> snd (snd (?notes ! N)) = fst (?new ! N)"
      using assms by simp
  qed
  show ?thesis
    unfolding Let_def nw nt using a b c d e f g by blast
qed

theorem event_generate_indices_witness:
  "let s' = event_generate_all [(''.'', ''<<a>>'', Data PyNone), (''.b'', ''<<b>>'', Data (Obj 7))]
              (init_module MainThread (0::int) :: (int, unit, int) state)
   in map fst (datastream s') = [0, 1] \<and> map (\<lambda>e. snd (snd e)) (tcl_events s') = [0, 1]"
  using event_generate_indices [of 1 "[(''.'', ''<<a>>'', Data PyNone), (''.b'', ''<<b>>'', Data (Obj 7))]"
      "init_module MainThread (0::int) :: (int, unit, int) state"]
  by (simp add: Let_def init_module_def return_cell_def event_generate_def tk_accepts_def)

text \<open>
  Claim C7 as it is written has the \<open>N\<close>th notification carry the index of the \<open>N\<close>th entry
  for every sequence of calls. A call with a sequence that is not a virtual event has
  taken index 0 and enqueued its entry when Tk refuses the event; the next call gets
  index 1, and its notification, the first one issued, carries 1 while the first entry
  appended has index 0.
\<close>

theorem event_generate_indices_counterexample:
  "let s' = event_generate_all [(''.'', ''<Key>'', Data PyNone), (''.'', ''<<b>>'', Data (Obj 7))]
              (init_module MainThread (0::int) :: (int, unit, int) state)
   in fst (event_generate ''.'' ''<Key>'' (Data PyNone)
             (init_module MainThread (0::int) :: (int, unit, int) state)) = Inl TclError
      \<and> map fst (datastream s') = [0, 1] \<and> map (\<lambda>e. snd (snd e)) (tcl_events s') = [1]
      \<and> snd (snd (tcl_events s' ! 0)) \<noteq> fst (datastream s' ! 0)"
  by (simp add: Let_def init_module_def return_cell_def event_generate_def tk_accepts_def)

section \<open>The consuming read of the return cell\<close>

lemma FuncGenerator_resume_HasCell:
  "cells s t = HasCell c \<Longrightarrow> bell c \<Longrightarrow>
   FuncGenerator_resume t s =
     Some (if err_flag c
           then (case cell_value c of ExcObj e \<Rightarrow> Inl e | x \<Rightarrow> Inl TypeError)
           else Inr (cell_value c),
           s\<lparr>cells := (cells s)(t := HasCell (c\<lparr>cell_value := PyNone\<rparr>))\<rparr>)"
  by (simp add: FuncGenerator_resume_def set_return_def Let_def split: pyobj.split)

lemma FuncGenerator_resume_blocked:
  "FuncGenerator_resume t s = None \<longleftrightarrow> (case cells s t of HasCell c \<Rightarrow> \<not> bell c | x \<Rightarrow> True)"
  by (simp add: FuncGenerator_resume_def set_return_def Let_def split: slot.split pyobj.split)

text \<open>
  Claim C9. When the part of \<^verbatim>\<open>FuncGenerator.__call__\<close> after the wait completes in thread
  \<open>t\<close>, by returning or by raising, the thread had a cell with its bell set, what comes
  back is what that cell held, and the cell is left as it was except that its value is
  \<^verbatim>\<open>None\<close>: the result of the call is not in the cell any more when the cell is used again.
\<close>

theorem resume_clears_value:
  assumes "FuncGenerator_resume t s = Some (r, s')"
  shows "\<exists>c. cells s t = HasCell c \<and> bell c \<and> cells s' t = HasCell (c\<lparr>cell_value := PyNone\<rparr>)
             \<and> r = (if err_flag c
                    then (case cell_value c of ExcObj e \<Rightarrow> Inl e | x \<Rightarrow> Inl TypeError)
                    else Inr (cell_value c))"
proof -
  from assms have nb: "FuncGenerator_resume t s \<noteq> None" by simp
  then obtain c where c: "cells s t = HasCell c" and b: "bell c"
    by (cases "cells s t") (simp_all add: FuncGenerator_resume_blocked)
  from FuncGenerator_resume_HasCell [OF c b] assms
  have r: "r = (if err_flag c
                then (case cell_value c of ExcObj e \<Rightarrow> Inl e | x \<Rightarrow> Inl TypeError)
                else Inr (cell_value c))"
    and s': "s' = s\<lparr>cells := (cells s)(t := HasCell (c\<lparr>cell_value := PyNone\<rparr>))\<rparr>"
    by simp_all
  have "cells s' t = HasCell (c\<lparr>cell_value := PyNone\<rparr>)"
    by (simp add: s')
  with c b r show ?thesis by blast
qed

theorem resume_clears_value_witness:
  "\<exists>s' c. FuncGenerator_resume (Worker 1)
       ((init_module MainThread (0::int) :: (int, unit, int) state)
          \<lparr>cells := (\<lambda>u. if u = Worker 1
                           then HasCell \<lparr>cell_value = Obj 5, err_flag = False, bell = True\<rparr>
                           else NoneCell)\<rparr>)
     = Some (Inr (Obj 5), s')
     \<and> cells s' (Worker 1) = HasCell c \<and> cell_value c = PyNone"
proof -
  let ?s = "(init_module MainThread (0::int) :: (int, unit, int) state)
          \<lparr>cells := (\<lambda>u. if u = Worker 1
                           then HasCell \<lparr>cell_value = Obj 5, err_flag = False, bell = True\<rparr>
                           else NoneCell)\<rparr>"
  have "FuncGenerator_resume (Worker 1) ?s \<noteq> None"
    by (simp add: FuncGenerator_resume_blocked)
  then obtain r s' where e: "FuncGenerator_resume (Worker 1) ?s = Some (r, s')"
    by auto
  from resume_clears_value [OF e] obtain c where
    "cells s' (Worker 1) = HasCell (c\<lparr>cell_value := PyNone\<rparr>)"
    "cells ?s (Worker 1) = HasCell c"
    "r = (if err_flag c
          then (case cell_value c of ExcObj e \<Rightarrow> Inl e | x \<Rightarrow> Inl TypeError)
          else Inr (cell_value c))"
    by blast
  moreover from this have "r = Inr (Obj 5)" by auto
  ultimately show ?thesis using e by auto
qed

section \<open>A synchronous call from the owner thread\<close>

lemma return_cell_NoneCell:
  "cells s t = NoneCell \<Longrightarrow> return_cell t s = (NoneCell, s)"
  by (simp add: return_cell_def)

lemma return_cell_main_Unset:
  "cells s MainThread = Unset \<Longrightarrow> \<not> main_cell_set s \<Longrightarrow>
   return_cell MainThread s =
     (NoneCell, s\<lparr>cells := (cells s)(MainThread := NoneCell), main_cell_set := True\<rparr>)"
  by (simp add: return_cell_def)

lemma main_ok_init_module: "main_ok (init_module t w)"
  by (cases t) (simp_all add: main_ok_def init_module_def return_cell_def Let_def)

lemma main_ok_return_cell: "main_ok s \<Longrightarrow> main_ok (snd (return_cell t s))"
  by (cases t) (auto simp add: main_ok_def return_cell_def split: slot.split)

lemma main_ok_event_generate: "main_ok s \<Longrightarrow> main_ok (snd (event_generate w sq d s))"
  by (simp add: main_ok_def event_generate_fields)

text \<open>
  Claim C5. The owner thread is the thread the module takes for it: Python's main thread,
  whose slot \<^verbatim>\<open>return_cell()\<close> answers with \<^verbatim>\<open>None\<close>. A call of \<^verbatim>\<open>FuncGenerator.__call__\<close> in
  that thread comes back at once with what the bound call raises or returns, run in
  place in the current world; the queue, the counter and Tcl's queue of notifications are
  as before, and every thread has the cell it had, unchanged (no cell is made). Once the
  slot of the main thread is \<^verbatim>\<open>None\<close> the whole state is the same but for the world the
  bound call leaves.
\<close>

theorem FuncGenerator_call_main_thread:
  assumes "main_ok s"
  shows "\<exists>s'. FuncGenerator_call h MainThread w func s = Done (fst (func (world s))) s'
            \<and> world s' = snd (func (world s))
            \<and> datastream s' = datastream s \<and> count s' = count s
            \<and> tcl_events s' = tcl_events s
            \<and> (\<forall>t. cell_of (cells s' t) = cell_of (cells s t))
            \<and> (cells s MainThread = NoneCell \<longrightarrow> s' = s\<lparr>world := snd (func (world s))\<rparr>)"
  using assms
  by (auto simp add: main_ok_def FuncGenerator_call_def return_cell_NoneCell return_cell_main_Unset
      run_func_def cell_of_def split: prod.split)

theorem FuncGenerator_call_main_thread_witness:
  "FuncGenerator_call FuncHandler MainThread ''.'' (\<lambda>w. (Inr (Obj (w * w)), w + 1))
     (init_module MainThread (3::int) :: (int, unit, int) state)
   = Done (Inr (Obj 9)) ((init_module MainThread 3)\<lparr>world := 4\<rparr>)"
proof -
  let ?s = "init_module MainThread (3::int) :: (int, unit, int) state"
  let ?f = "\<lambda>w::int. (Inr (Obj (w * w)) :: unit exc + (int, unit) pyobj, w + 1)"
  have n: "cells ?s MainThread = NoneCell"
    by (simp add: init_module_def return_cell_def)
  have w: "world ?s = 3"
    by (simp add: init_module_def return_cell_def)
  from FuncGenerator_call_main_thread [OF main_ok_init_module, of FuncHandler "''.''" ?f MainThread 3] n
  obtain s' where "FuncGenerator_call FuncHandler MainThread ''.'' ?f ?s = Done (fst (?f (world ?s))) s'"
    and "s' = ?s\<lparr>world := snd (?f (world ?s))\<rparr>"
    by blast
  then show ?thesis by (simp add: w)
qed

section \<open>The order of the writes of FuncHandler\<close>

text \<open>
  Claim C6, as the code has it. \<^verbatim>\<open>FuncHandler.__call__\<close> writes \<^verbatim>\<open>err_flag\<close> first, then
  stores the result or the exception with \<^verbatim>\<open>set_return\<close>, and sets the bell last: the cells
  another thread could see are the cell before, the cell with the flag written, the cell
  with the flag and the value written, and only then the cell with the bell set. So the
  bell is never set before both the flag and the value are written. The cell the handler
  leaves is the last of these.
\<close>

theorem FuncHandler_write_order:
  "cell_trace (FuncHandler_ops r) c =
     [c,
      c\<lparr>err_flag := isl r\<rparr>,
      c\<lparr>err_flag := isl r, cell_value := (case r of Inl e \<Rightarrow> ExcObj e | Inr v \<Rightarrow> v)\<rparr>,
      c\<lparr>err_flag := isl r, cell_value := (case r of Inl e \<Rightarrow> ExcObj e | Inr v \<Rightarrow> v), bell := True\<rparr>]
   \<and> fold apply_cell_op (FuncHandler_ops r) c = last (cell_trace (FuncHandler_ops r) c)"
  by (cases r) (simp_all add: FuncHandler_ops_def set_return_def)

theorem FuncHandler_write_order_witness:
  "cell_trace (FuncHandler_ops (Inr (Obj (5::int)) :: unit exc + (int, unit) pyobj)) ReturnCell_init =
     [\<lparr>cell_value = PyNone, err_flag = False, bell = False\<rparr>,
      \<lparr>cell_value = PyNone, err_flag = False, bell = False\<rparr>,
      \<lparr>cell_value = Obj 5, err_flag = False, bell = False\<rparr>,
      \<lparr>cell_value = Obj 5, err_flag = False, bell = True\<rparr>]"
  using FuncHandler_write_order [of "Inr (Obj (5::int)) :: unit exc + (int, unit) pyobj" ReturnCell_init]
  by (simp add: ReturnCell_init_def)

text \<open>
  Claim C6 as it is written puts the store of the value before the write of the flag.
  The writes of the handler are not in that order; and when the bound call raises, the
  cell after the first write has its flag set while its value is still the \<^verbatim>\<open>None\<close> it had.
\<close>

theorem FuncHandler_write_order_counterexample:
  "FuncHandler_ops (Inr (Obj (5::int)) :: unit exc + (int, unit) pyobj)
     \<noteq> [SetReturn (Obj 5), SetErrFlag False, BellSet]
   \<and> err_flag (cell_trace (FuncHandler_ops (Inl (UserException ()) :: unit exc + (int, unit) pyobj))
                 ReturnCell_init ! 1) = True
   \<and> cell_value (cell_trace (FuncHandler_ops (Inl (UserException ()) :: unit exc + (int, unit) pyobj))
                 ReturnCell_init ! 1) = PyNone"
  by (simp add: FuncHandler_ops_def ReturnCell_init_def set_return_def)

section \<open>What a bound handler receives\<close>

lemma call_binding_found:
  assumes "datastream s = pre @ (i, d) # rest" and "\<forall>e \<in> set pre. fst e < i"
  shows "call_binding w func i s = callback_call func (SmallEvent d w) (s\<lparr>datastream := rest\<rparr>)"
  using assms by (simp add: call_binding_def substitute_skip substitute_Cons)

text \<open>
  The first command run for an event. The counter is above every index in the queue.
  \<^verbatim>\<open>event_generate(w', sq, d)\<close> is called, and any calls of \<^verbatim>\<open>event_generate\<close> after it. When
  Tcl then runs the command of a binding made by \<^verbatim>\<open>bind(w, ..., func)\<close> on the index of that
  event, and the entry is still in the queue, \<^verbatim>\<open>func\<close> is called on \<^verbatim>\<open>SmallEvent(d, w)\<close>: \<open>d\<close>
  is the object given to \<^verbatim>\<open>event_generate\<close>, and the widget is the one given to \<^verbatim>\<open>bind\<close>,
  whatever the widget \<open>w'\<close> the event was generated on. The command takes the entry out of
  the queue.
\<close>

lemma first_binding_event:
  assumes "\<forall>e \<in> set (datastream s). fst e < count s"
  shows "call_binding w func (count s) (event_generate_all ops (snd (event_generate w' sq d s)))
         = callback_call func (SmallEvent d w)
             ((event_generate_all ops (snd (event_generate w' sq d s)))
                \<lparr>datastream := drop (Suc (length (datastream s)))
                    (datastream (event_generate_all ops (snd (event_generate w' sq d s))))\<rparr>)"
proof -
  let ?s2 = "event_generate_all ops (snd (event_generate w' sq d s))"
  let ?rest = "map (\<lambda>k. (count s + 1 + int k, snd (snd (ops ! k)))) [0..<length ops]"
  have ds: "datastream ?s2 = datastream s @ (count s, d) # ?rest"
    by (simp add: event_generate_all_datastream event_generate_fields)
  have "drop (Suc (length (datastream s))) (datastream ?s2) = ?rest"
    by (simp add: ds)
  with call_binding_found [OF ds assms] show ?thesis by simp
qed

text \<open>
  Claim C10 fails in the code for a handler bound in addition to another. Two handlers
  are bound to one sequence on one widget, the second with \<^verbatim>\<open>add=True\<close>, and an event
  carrying 7 is generated. Tk runs both commands for the event. The first handler is
  called with the event; the command of the second raises \<^verbatim>\<open>IndexError\<close> in \<^verbatim>\<open>_substitute\<close>,
  the entry being gone, and the second handler is not called. When a second event,
  carrying 8, is in the queue as well, the command of the second handler takes the entry
  of that event out of the queue and fails the assertion; when Tk comes to the second
  event both commands raise \<^verbatim>\<open>IndexError\<close>, and no handler is ever called with 8.
\<close>

theorem added_binding_never_called:
  "map_option (\<lambda>x. (fst x, world (snd x), map fst (datastream (snd x))))
     (tk_deliver
        (snd (event_generate ''.'' ''<<test>>'' (Data (Obj 7))
           (bind ''.'' ''<<test>>'' (recording ''h2'') True
              (bind ''.'' ''<<test>>'' (recording ''h1'') False
                 (init_module MainThread [] :: (int, unit, (string \<times> int) list) state))))))
     = Some ([Inr PyNone, Inl IndexError], [(''h1'', 7)], [])
   \<and> (case tk_deliver
          (snd (event_generate ''.'' ''<<test>>'' (Data (Obj 8))
             (snd (event_generate ''.'' ''<<test>>'' (Data (Obj 7))
                (bind ''.'' ''<<test>>'' (recording ''h2'') True
                   (bind ''.'' ''<<test>>'' (recording ''h1'') False
                      (init_module MainThread [] :: (int, unit, (string \<times> int) list) state))))))) of
         None \<Rightarrow> False
       | Some (rs, s3) \<Rightarrow>
           rs = [Inr PyNone, Inl AssertionError] \<and> world s3 = [(''h1'', 7)] \<and> datastream s3 = []
           \<and> map_option (\<lambda>x. (fst x, world (snd x))) (tk_deliver s3)
               = Some ([Inl IndexError, Inl IndexError], [(''h1'', 7)]))"
  by (simp add: tk_deliver_def triggered_def bind_def init_module_def return_cell_def
      event_generate_def tk_accepts_def call_binding_def substitute_def callback_call_def
      run_func_def recording_def)

section \<open>When a proxy resolves an attribute\<close>

text \<open>
  Claim C8, as the code has it. A name the \<^verbatim>\<open>Proxy\<close> object itself has (its attribute
  \<^verbatim>\<open>_getattr\<close>, the attributes of its class and of \<^verbatim>\<open>object\<close>) is found by Python's normal
  lookup: the access gives the Proxy's own attribute, the target is not looked at and
  nothing is raised. Any other name is resolved against the target when it is accessed on
  the proxy, \<^verbatim>\<open>_getattr\<close> evaluating \<^verbatim>\<open>getattr(obj, name)\<close> before it builds the forwarding
  callable, and every access resolves afresh. So the access of a name the target lacks
  raises \<^verbatim>\<open>AttributeError\<close> itself, with no callable to call; the callable got while the
  target has method \<open>f_old\<close> under the name forwards every call to \<open>f_old\<close>, in whatever
  state it is called; and after the name is reassigned to \<open>f_new\<close>, the callable of a new
  access forwards to \<open>f_new\<close>.
\<close>

theorem proxy_resolves_at_access:
  "(Proxy_own builtin name \<longrightarrow>
      Proxy_attribute builtin (make_proxy g w obj) name = Inr (Own name))
   \<and> (\<not> Proxy_own builtin name \<and> obj name = None \<longrightarrow>
      Proxy_attribute builtin (make_proxy g w obj) name = Inl AttributeError)
   \<and> (\<not> Proxy_own builtin name \<and> obj name = Some f_old \<longrightarrow>
      (\<exists>fwd1 fwd2.
           Proxy_attribute builtin (make_proxy g w obj) name = Inr (Forwarder fwd1)
         \<and> Proxy_attribute builtin (make_proxy g w (obj(name \<mapsto> f_new))) name = Inr (Forwarder fwd2)
         \<and> (\<forall>args t s. fwd1 args t s = generator_call g t w (f_old args) s
                      \<and> fwd2 args t s = generator_call g t w (f_new args) s)))"
  by (simp add: Proxy_attribute_def make_proxy_def method_fn_def)

theorem proxy_resolves_at_access_witness:
  "\<exists>fwd1 fwd2.
      Proxy_attribute (\<lambda>n. n \<in> set [''__class__'', ''__dict__'', ''__doc__''])
        (proxy ''.'' [''f'' \<mapsto> (\<lambda>a w. (Inr (Obj (1::int)), w))]) ''f'' = Inr (Forwarder fwd1)
    \<and> Proxy_attribute (\<lambda>n. n \<in> set [''__class__'', ''__dict__'', ''__doc__''])
        (proxy ''.'' [''f'' \<mapsto> (\<lambda>a w. (Inr (Obj (2::int)), w))]) ''f'' = Inr (Forwarder fwd2)
    \<and> fwd1 () MainThread (init_module MainThread (0::int) :: (int, unit, int) state)
        = Done (Inr (Obj 1)) (init_module MainThread 0)
    \<and> fwd2 () MainThread (init_module MainThread (0::int) :: (int, unit, int) state)
        = Done (Inr (Obj 2)) (init_module MainThread 0)"
proof -
  let ?m1 = "\<lambda>(a::unit) (w::int). (Inr (Obj (1::int)) :: unit exc + (int, unit) pyobj, w)"
  let ?m2 = "\<lambda>(a::unit) (w::int). (Inr (Obj (2::int)) :: unit exc + (int, unit) pyobj, w)"
  let ?s = "init_module MainThread (0::int) :: (int, unit, int) state"
  let ?b = "\<lambda>n. n \<in> set [''__class__'', ''__dict__'', ''__doc__'']"
  have h: "\<not> Proxy_own ?b ''f'' \<and> [''f'' \<mapsto> ?m1] ''f'' = Some ?m1"
    by (simp add: Proxy_own_def)
  from proxy_resolves_at_access
    [of ?b "''f''" "FuncGenerator FuncHandler" "''.''" "[''f'' \<mapsto> ?m1]" ?m1 ?m2] h
  obtain fwd1 fwd2 where
    a: "Proxy_attribute ?b (make_proxy (FuncGenerator FuncHandler) ''.'' [''f'' \<mapsto> ?m1]) ''f''
          = Inr (Forwarder fwd1)"
    and b: "Proxy_attribute ?b
              (make_proxy (FuncGenerator FuncHandler) ''.'' ([''f'' \<mapsto> ?m1](''f'' \<mapsto> ?m2))) ''f''
          = Inr (Forwarder fwd2)"
    and c: "\<And>args t s. fwd1 args t s = generator_call (FuncGenerator FuncHandler) t ''.'' (?m1 args) s"
    and d: "\<And>args t s. fwd2 args t s = generator_call (FuncGenerator FuncHandler) t ''.'' (?m2 args) s"
    by blast
  have e: "fwd1 () MainThread ?s = Done (Inr (Obj 1)) ?s"
    by (simp add: c generator_call_def FuncGenerator_call_def return_cell_def init_module_def
        run_func_def)
  have f: "fwd2 () MainThread ?s = Done (Inr (Obj 2)) ?s"
    by (simp add: d generator_call_def FuncGenerator_call_def return_cell_def init_module_def
        run_func_def)
  have p: "proxy ''.'' = make_proxy (FuncGenerator FuncHandler) ''.''"
    by (simp add: proxy_def fun_eq_iff)
  from a b e f show ?thesis unfolding p by simp
qed

text \<open>
  Claim C8 as it is written has no name resolved before the forwarding callable is
  called. But the access of a name the target lacks raises at the access; and a callable
  got while the name was bound to a method returning 1 returns 1 when it is called, also
  after the name was bound to a method returning 2.
\<close>

theorem proxy_resolves_at_access_counterexample:
  "(Proxy_attribute (\<lambda>n. n \<in> set [''__class__'', ''__dict__'', ''__doc__''])
      (proxy ''.'' Map.empty) ''f''
      :: unit exc + (unit \<Rightarrow> thread \<Rightarrow> (int, unit, int) state \<Rightarrow> (int, unit, int) progress) attribute)
     = Inl AttributeError
   \<and> (case Proxy_attribute (\<lambda>n. n \<in> set [''__class__'', ''__dict__'', ''__doc__''])
              (proxy ''.'' [''f'' \<mapsto> (\<lambda>a w. (Inr (Obj (1::int)), w))]) ''f'' of
         Inr (Forwarder fwd) \<Rightarrow>
           fwd () MainThread (init_module MainThread (0::int) :: (int, unit, int) state)
             = Done (Inr (Obj 1)) (init_module MainThread 0)
           \<and> run_func ((\<lambda>a w. (Inr (Obj (2::int)), w)) ())
               (init_module MainThread (0::int) :: (int, unit, int) state)
             = (Inr (Obj 2), init_module MainThread 0)
       | x \<Rightarrow> False)"
  by (simp add: Proxy_attribute_def Proxy_own_def proxy_def make_proxy_def method_fn_def
      generator_call_def FuncGenerator_call_def return_cell_def init_module_def run_func_def)

section \<open>Mute proxies without an exception handler\<close>

lemma handle_call_ProcHandler:
  "handle_call (SmallEvent (ProcEventData ProcHandler f) wd) s =
     (case f (world s) of
        (Inl e, w') \<Rightarrow> (Inl e, s\<lparr>world := w'\<rparr>)
      | (Inr v, w') \<Rightarrow> (Inr PyNone, s\<lparr>world := w'\<rparr>))"
  by (simp add: handle_call_def handler_call_def ProcHandler_call_def event_func_def run_func_def
      split: prod.split sum.split)

text \<open>
  Claim C1, as the code has it. A mute proxy made without an exception handler uses
  \<^verbatim>\<open>ProcHandler\<close>. In whatever thread and state a method of the proxy is called, the call
  enqueues the bound call, issues its notification (the module's own virtual event, which
  Tk takes) and returns \<^verbatim>\<open>None\<close> at once: it never waits and never raises, and no return
  cell is touched. When the owner thread handles the event, the handler
  runs the bound call and nothing else: an exception the wrapped method raises is not
  caught, it leaves the handler and \<^verbatim>\<open>handle_call\<close> and reaches the Tk callback that called
  them; no cell is written, so neither the exception nor a value reaches the calling
  thread.
\<close>

theorem mute_proxy_no_handler:
  assumes "obj name = Some m"
  shows "\<exists>fwd. mute_proxy w obj None name = Inr fwd
     \<and> (\<forall>args t s.
           fwd args t s =
             Done (Inr PyNone)
               (snd (event_generate w virtual_event (ProcEventData ProcHandler (m args)) s))
           \<and> event_generate w virtual_event (ProcEventData ProcHandler (m args)) s =
               (Inr PyNone,
                s\<lparr>count := count s + 1,
                  datastream := datastream s @ [(count s, ProcEventData ProcHandler (m args))],
                  tcl_events := tcl_events s @ [(w, virtual_event, count s)]\<rparr>)
           \<and> cells (snd (event_generate w virtual_event (ProcEventData ProcHandler (m args)) s))
               = cells s)
     \<and> (\<forall>args wd s.
           handle_call (SmallEvent (ProcEventData ProcHandler (m args)) wd) s =
             (case m args (world s) of
                (Inl e, w') \<Rightarrow> (Inl e, s\<lparr>world := w'\<rparr>)
              | (Inr v, w') \<Rightarrow> (Inr PyNone, s\<lparr>world := w'\<rparr>)))"
  using assms
  by (simp add: mute_proxy_def make_proxy_def method_fn_def generator_call_def
      ProcGenerator_call_def handle_call_ProcHandler event_generate_virtual)

theorem mute_proxy_no_handler_witness:
  "\<exists>fwd. mute_proxy ''.'' [''bad'' \<mapsto> (\<lambda>a w. (Inl (UserException ''boom''), w + 1))] None ''bad''
           = Inr fwd
     \<and> (case fwd () (Worker 1)
               (ProxyBuilder_init ''.'' (init_module MainThread (0::int) :: (int, string, int) state)) of
          Done r s1 \<Rightarrow>
            r = Inr PyNone
            \<and> cells s1 (Worker 1) = Unset
            \<and> map_option (\<lambda>x. (fst x, world (snd x), cells (snd x) (Worker 1))) (tk_deliver s1)
                = Some ([Inl (UserException ''boom'')], 1, Unset)
        | Waiting s1 \<Rightarrow> False)"
proof -
  let ?m = "\<lambda>(a::unit) (w::int). (Inl (UserException ''boom'') :: string exc + (int, string) pyobj, w + 1)"
  let ?s = "ProxyBuilder_init ''.'' (init_module MainThread (0::int) :: (int, string, int) state)"
  have h: "[''bad'' \<mapsto> ?m] ''bad'' = Some ?m" by simp
  from mute_proxy_no_handler [of "[''bad'' \<mapsto> ?m]" "''bad''" ?m "''.''", OF h]
  obtain fwd where
    a: "mute_proxy ''.'' [''bad'' \<mapsto> ?m] None ''bad'' = Inr fwd"
    and b: "\<And>args t s. fwd args t s =
             Done (Inr PyNone)
               (snd (event_generate ''.'' virtual_event (ProcEventData ProcHandler (?m args)) s))"
    by blast
  have c: "cells (snd (event_generate ''.'' virtual_event (ProcEventData ProcHandler (?m ())) ?s))
             (Worker 1) = Unset"
    by (simp add: event_generate_fields ProxyBuilder_init_def bind_def init_module_def
        return_cell_def)
  have d: "map_option (\<lambda>x. (fst x, world (snd x), cells (snd x) (Worker 1)))
             (tk_deliver
                (snd (event_generate ''.'' virtual_event (ProcEventData ProcHandler (?m ())) ?s)))
           = Some ([Inl (UserException ''boom'')], 1, Unset)"
    by (simp add: handle_call_ProcHandler tk_deliver_def triggered_def event_generate_virtual
        ProxyBuilder_init_def bind_def init_module_def return_cell_def call_binding_def
        substitute_def callback_call_def)
  from a c d show ?thesis by (simp add: b)
qed

text \<open>
  Claim C1 as it is written has the handler discard the exception and complete. With a
  bound call that raises, \<^verbatim>\<open>handle_call\<close> raises that exception, and so does the binding
  that Tk runs for the event a mute proxy of a \<^verbatim>\<open>ProxyBuilder\<close> generated.
\<close>

theorem mute_proxy_no_handler_counterexample:
  "fst (handle_call
          (SmallEvent (ProcEventData ProcHandler (\<lambda>w. (Inl (UserException ''boom''), w))) ''.'')
          (init_module MainThread (0::int) :: (int, string, int) state))
     = Inl (UserException ''boom'')
   \<and> map_option fst
        (tk_deliver
           (snd (event_generate ''.'' virtual_event
              (ProcEventData ProcHandler (\<lambda>w. (Inl (UserException ''boom''), w)))
              (ProxyBuilder_init ''.'' (init_module MainThread (0::int) :: (int, string, int) state)))))
     = Some [Inl (UserException ''boom'')]"
  by (simp add: handle_call_ProcHandler tk_deliver_def triggered_def event_generate_virtual
      ProxyBuilder_init_def bind_def init_module_def return_cell_def call_binding_def
      substitute_def callback_call_def)

section \<open>The round trip of a synchronous call\<close>

lemma return_cell_cases:
  "return_cell t s = (x, s1) \<Longrightarrow>
     datastream s1 = datastream s \<and> count s1 = count s \<and> tcl_events s1 = tcl_events s
     \<and> bindings s1 = bindings s \<and> bindtags s1 = bindtags s \<and> world s1 = world s
     \<and> cells s1 t = x \<and> x \<noteq> Unset"
  by (auto simp add: return_cell_def split: slot.splits if_splits)

lemma FuncGenerator_call_Waiting:
  assumes "FuncGenerator_call h t w func s = Waiting s1"
  shows "datastream s1 = datastream s @ [(count s, FuncEventData h t func)]
       \<and> tcl_events s1 = tcl_events s @ [(w, virtual_event, count s)]
       \<and> count s1 = count s + 1
       \<and> bindings s1 = bindings s \<and> bindtags s1 = bindtags s \<and> world s1 = world s
       \<and> (\<exists>c. cells s1 t = HasCell c \<and> \<not> bell c)"
proof -
  obtain x s0 where rc: "return_cell t s = (x, s0)" by (cases "return_cell t s")
  note f = return_cell_cases [OF rc]
  from assms rc obtain c where x: "x = HasCell c"
    by (cases x) (simp_all add: FuncGenerator_call_def split: prod.splits)
  from assms rc x have s1: "s1 = snd (event_generate w virtual_event (FuncEventData h t func)
                     (s0\<lparr>cells := (cells s0)(t := HasCell (apply_cell_op BellClear c))\<rparr>))"
    by (simp add: FuncGenerator_call_def event_generate_virtual)
  show ?thesis using f by (simp add: s1 event_generate_fields tk_accepts_virtual_event)
qed

lemma FuncHandler_handled:
  assumes ev: "tcl_events s = (w', sq, i) # evs"
    and tr: "triggered s w' sq = [(w, HandleCall)]"
    and ds: "datastream s = pre @ (i, FuncEventData FuncHandler t func) # rest"
    and pre: "\<forall>e \<in> set pre. fst e < i"
    and c: "cells s t = HasCell c"
    and f: "func (world s) = (r, w2)"
    and r: "case r of Inl e \<Rightarrow> is_Exception e | Inr v \<Rightarrow> True"
  shows "tk_deliver s =
           Some ([Inr PyNone],
                 s\<lparr>tcl_events := evs, datastream := rest, world := w2,
                   cells := (cells s)(t := HasCell
                     (c\<lparr>err_flag := isl r,
                        cell_value := (case r of Inl e \<Rightarrow> ExcObj e | Inr v \<Rightarrow> v),
                        bell := True\<rparr>))\<rparr>)"
proof -
  let ?s0 = "s\<lparr>tcl_events := evs\<rparr>"
  have ds0: "datastream ?s0 = pre @ (i, FuncEventData FuncHandler t func) # rest"
    by (simp add: ds)
  have cb: "call_binding w HandleCall i ?s0 =
              callback_call HandleCall (SmallEvent (FuncEventData FuncHandler t func) w)
                (?s0\<lparr>datastream := rest\<rparr>)"
    by (rule call_binding_found [OF ds0 pre])
  have nr: "\<not> (case r of Inl e \<Rightarrow> \<not> is_Exception e | Inr v \<Rightarrow> False)"
    using r by (cases r) simp_all
  have fold: "fold apply_cell_op (FuncHandler_ops r) c =
                c\<lparr>err_flag := isl r,
                  cell_value := (case r of Inl e \<Rightarrow> ExcObj e | Inr v \<Rightarrow> v),
                  bell := True\<rparr>"
    by (cases r) (simp_all add: FuncHandler_ops_def set_return_def)
  have hc: "callback_call HandleCall (SmallEvent (FuncEventData FuncHandler t func) w)
              (?s0\<lparr>datastream := rest\<rparr>) =
            (Inr PyNone,
             s\<lparr>tcl_events := evs, datastream := rest, world := w2,
               cells := (cells s)(t := HasCell
                 (c\<lparr>err_flag := isl r,
                    cell_value := (case r of Inl e \<Rightarrow> ExcObj e | Inr v \<Rightarrow> v),
                    bell := True\<rparr>))\<rparr>)"
    using nr
    by (simp add: callback_call_def handle_call_def handler_call_def FuncHandler_call_def
        run_func_def f c fold)
  show ?thesis
    by (simp add: tk_deliver_def ev tr cb hc)
qed

lemma sync_round_trip:
  assumes ev: "tcl_events s = (w', sq, i) # evs"
    and tr: "triggered s w' sq = [(w, HandleCall)]"
    and ds: "datastream s = pre @ (i, FuncEventData FuncHandler t func) # rest"
    and pre: "\<forall>e \<in> set pre. fst e < i"
    and c: "cells s t = HasCell c"
    and f: "func (world s) = (r, w2)"
    and r: "case r of Inl e \<Rightarrow> is_Exception e | Inr v \<Rightarrow> True"
  shows "\<exists>s3 s4. tk_deliver s = Some ([Inr PyNone], s3)
           \<and> (\<exists>c'. cells s3 t = HasCell c' \<and> bell c' \<and> err_flag c' = isl r
                     \<and> cell_value c' = (case r of Inl e \<Rightarrow> ExcObj e | Inr v \<Rightarrow> v))
           \<and> FuncGenerator_resume t s3 = Some (r, s4)
           \<and> world s4 = w2 \<and> datastream s4 = rest \<and> tcl_events s4 = evs
           \<and> (\<exists>c''. cells s4 t = HasCell c'' \<and> cell_value c'' = PyNone)"
proof -
  let ?c' = "c\<lparr>err_flag := isl r,
               cell_value := (case r of Inl e \<Rightarrow> ExcObj e | Inr v \<Rightarrow> v),
               bell := True\<rparr>"
  let ?s3 = "s\<lparr>tcl_events := evs, datastream := rest, world := w2,
               cells := (cells s)(t := HasCell ?c')\<rparr>"
  let ?s4 = "?s3\<lparr>cells := (cells ?s3)(t := HasCell (?c'\<lparr>cell_value := PyNone\<rparr>))\<rparr>"
  have d: "tk_deliver s = Some ([Inr PyNone], ?s3)"
    by (rule FuncHandler_handled [OF ev tr ds pre c f r])
  have c3: "cells ?s3 t = HasCell ?c'" by simp
  have b: "bell ?c'" by simp
  have res: "(if err_flag ?c'
              then (case cell_value ?c' of ExcObj e \<Rightarrow> Inl e | x \<Rightarrow> Inl TypeError)
              else Inr (cell_value ?c')) = r"
    by (cases r) simp_all
  have rs: "FuncGenerator_resume t ?s3 = Some (r, ?s4)"
    using FuncGenerator_resume_HasCell [OF c3 b] by (simp only: res)
  have "cells ?s3 t = HasCell ?c' \<and> bell ?c' \<and> err_flag ?c' = isl r
          \<and> cell_value ?c' = (case r of Inl e \<Rightarrow> ExcObj e | Inr v \<Rightarrow> v)"
    by simp
  moreover have "world ?s4 = w2 \<and> datastream ?s4 = rest \<and> tcl_events ?s4 = evs" by simp
  moreover have "cells ?s4 t = HasCell (?c'\<lparr>cell_value := PyNone\<rparr>)
                   \<and> cell_value (?c'\<lparr>cell_value := PyNone\<rparr>) = PyNone" by simp
  ultimately show ?thesis using d rs by blast
qed

lemma idle_dispatch:
  "FuncGenerator_call FuncHandler (Worker 1) ''.'' func
     (ProxyBuilder_init ''.'' (init_module MainThread w0)) =
   Waiting (snd (event_generate ''.'' virtual_event (FuncEventData FuncHandler (Worker 1) func)
     ((ProxyBuilder_init ''.'' (init_module MainThread w0))
        \<lparr>cells := (cells (ProxyBuilder_init ''.'' (init_module MainThread w0)))
           (Worker 1 := HasCell \<lparr>cell_value = PyNone, err_flag = False, bell = False\<rparr>)\<rparr>)))"
  by (simp add: FuncGenerator_call_def return_cell_def ProxyBuilder_init_def bind_def
      init_module_def ReturnCell_init_def event_generate_virtual)

lemma idle_state:
  "count (ProxyBuilder_init ''.'' (init_module MainThread w0)) = 0"
  "datastream (ProxyBuilder_init ''.'' (init_module MainThread w0)) = []"
  "tcl_events (ProxyBuilder_init ''.'' (init_module MainThread w0)) = []"
  "world (ProxyBuilder_init ''.'' (init_module MainThread w0)) = w0"
  "triggered (ProxyBuilder_init ''.'' (init_module MainThread w0)) ''.'' virtual_event
     = [(''.'', HandleCall)]"
  by (simp_all add: ProxyBuilder_init_def bind_def init_module_def return_cell_def triggered_def)

lemma triggered_frame:
  "triggered (snd (event_generate w sq d s)) = triggered s"
  "triggered (s\<lparr>cells := cs\<rparr>) = triggered s"
  by (simp_all add: triggered_def event_generate_fields tk_accepts_virtual_event fun_eq_iff)



text \<open>
  Claim C4, as the code has it. A call of \<^verbatim>\<open>FuncGenerator.__call__\<close> is suspended in thread
  \<open>t\<close>, and the owner thread comes to handle it in a state \<open>s2\<close> as in claim C3. The bound
  call, run there, raises \<open>e\<close> or returns \<open>v\<close>; when it raises, \<open>e\<close> is an instance of
  \<^verbatim>\<open>Exception\<close>, which is what \<^verbatim>\<open>FuncHandler\<close> catches. Then the handler stores that outcome in
  the cell of \<open>t\<close> (the exception object itself with \<^verbatim>\<open>err_flag\<close> set, or the value with the
  flag cleared) and sets the bell, and the resumed thread raises \<open>e\<close>, the same instance,
  or returns \<open>v\<close> without raising.
\<close>

theorem sync_call_propagates:
  assumes "FuncGenerator_call FuncHandler t w func s = Waiting s1"
    and "tcl_events s2 = (w, virtual_event, count s) # evs"
    and "datastream s2 = pre @ (count s, FuncEventData FuncHandler t func) # rest"
    and "\<forall>e \<in> set pre. fst e < count s"
    and "triggered s2 w virtual_event = [(w, HandleCall)]"
    and "cells s2 t = cells s1 t"
    and "func (world s2) = (r, w2)"
    and "case r of Inl e \<Rightarrow> is_Exception e | Inr v \<Rightarrow> True"
  shows "\<exists>s3 s4. tk_deliver s2 = Some ([Inr PyNone], s3)
           \<and> (\<exists>c. cells s3 t = HasCell c \<and> bell c \<and> err_flag c = isl r
                    \<and> cell_value c = (case r of Inl e \<Rightarrow> ExcObj e | Inr v \<Rightarrow> v))
           \<and> FuncGenerator_resume t s3 = Some (r, s4)
           \<and> world s4 = w2"
proof -
  from FuncGenerator_call_Waiting [OF assms(1)] obtain c where "cells s1 t = HasCell c"
    by blast
  with assms(6) have c: "cells s2 t = HasCell c" by simp
  from sync_round_trip [OF assms(2) assms(5) assms(3) assms(4) c assms(7) assms(8)]
  show ?thesis by blast
qed

theorem sync_call_propagates_witness:
  "map_option fst
     (marshalled_call (\<lambda>t. FuncGenerator_call FuncHandler t ''.'' (\<lambda>w. (Inl (UserException ''div''), w + 1)))
        (Worker 1)
        (ProxyBuilder_init ''.'' (init_module MainThread (0::int)) :: (int, string, int) state))
   = Some (Inl (UserException ''div''))"
proof -
  let ?f = "\<lambda>w::int. (Inl (UserException ''div'') :: string exc + (int, string) pyobj, w + 1)"
  let ?s = "ProxyBuilder_init ''.'' (init_module MainThread (0::int)) :: (int, string, int) state"
  let ?s1 = "snd (event_generate ''.'' virtual_event (FuncEventData FuncHandler (Worker 1) ?f)
     (?s\<lparr>cells := (cells ?s)
           (Worker 1 := HasCell \<lparr>cell_value = PyNone, err_flag = False, bell = False\<rparr>)\<rparr>))"
  have call: "FuncGenerator_call FuncHandler (Worker 1) ''.'' ?f ?s = Waiting ?s1"
    by (rule idle_dispatch)
  have ev: "tcl_events ?s1 = (''.'', virtual_event, count ?s) # []"
    by (simp add: event_generate_fields tk_accepts_virtual_event idle_state)
  have ds: "datastream ?s1 = [] @ (count ?s, FuncEventData FuncHandler (Worker 1) ?f) # []"
    by (simp add: event_generate_fields tk_accepts_virtual_event idle_state)
  have pre: "\<forall>e \<in> set []. fst e < count ?s" by simp
  have tr: "triggered ?s1 ''.'' virtual_event = [(''.'', HandleCall)]"
    by (simp add: triggered_frame idle_state)
  have f: "?f (world ?s1) = (Inl (UserException ''div''), 1)"
    by (simp add: event_generate_fields tk_accepts_virtual_event idle_state)
  have ok: "case (Inl (UserException ''div'') :: string exc + (int, string) pyobj) of
              Inl e \<Rightarrow> is_Exception e | Inr v \<Rightarrow> True"
    by simp
  from sync_call_propagates [OF call ev ds pre tr refl f ok]
  obtain s3 s4 where "tk_deliver ?s1 = Some ([Inr PyNone], s3)"
    and "FuncGenerator_resume (Worker 1) s3 = Some (Inl (UserException ''div''), s4)"
    by blast
  then show ?thesis unfolding marshalled_call_def call by simp
qed

text \<open>
  Claim C4 as it is written speaks of every exception the wrapped method raises. An
  exception that does not derive from \<^verbatim>\<open>Exception\<close>, such as \<^verbatim>\<open>SystemExit\<close>, passes the clause
  \<^verbatim>\<open>except Exception\<close>: the binding that Tk runs raises it on the owner thread, the bell is
  not set, and the calling thread does not resume, so that nothing is raised there.
\<close>

theorem sync_call_propagates_counterexample:
  "marshalled_call (\<lambda>t. FuncGenerator_call FuncHandler t ''.'' (\<lambda>w. (Inl (BaseOnly ''exit''), w)))
     (Worker 1)
     (ProxyBuilder_init ''.'' (init_module MainThread (0::int)) :: (int, string, int) state)
   = None
   \<and> (case FuncGenerator_call FuncHandler (Worker 1) ''.'' (\<lambda>w. (Inl (BaseOnly ''exit''), w))
             (ProxyBuilder_init ''.'' (init_module MainThread (0::int)) :: (int, string, int) state) of
         Done r s' \<Rightarrow> False
       | Waiting s1 \<Rightarrow> map_option fst (tk_deliver s1) = Some [Inl (BaseOnly ''exit'')])"
  unfolding marshalled_call_def idle_dispatch
  by (simp add: tk_deliver_def triggered_frame idle_state event_generate_fields tk_accepts_virtual_event call_binding_def
      substitute_def callback_call_def handle_call_def handler_call_def FuncHandler_call_def
      run_func_def FuncGenerator_resume_def)

end
